theory Spec2Isabelle
  imports Main "HOL-Library.AList"
begin

section \<open>Python values used by gridded.py\<close>

text \<open>
  The exceptions the module and the functions it calls can raise, each with its
  message or offending key. A raising computation returns \<open>Inl\<close> of the exception,
  a returning one \<open>Inr\<close> of its value.
\<close>

datatype error =
    ValueError string
  | KeyError string
  | IndexError string
  | AttributeError string
  | TypeError string
  | IOError string

text \<open>
  A numpy array: its shape and its elements in row-major (C contiguous) order. The
  element type is a parameter: the dtype of a netCDF variable is fixed by the file,
  and arithmetic on the elements is the arithmetic of that type.
\<close>

datatype 'a ndarray = NDArray (shape: "nat list") (data: "'a list")

definition wf_ndarray :: "'a ndarray \<Rightarrow> bool" where
  "wf_ndarray a = (length (data a) = prod_list (shape a))"

text \<open>Row-major offset of a multi-index, and the multi-index of an offset.\<close>

fun ravel :: "nat list \<Rightarrow> nat list \<Rightarrow> nat" where
  "ravel (n # ns) (i # is) = i * prod_list ns + ravel ns is"
| "ravel _ _ = 0"

fun unravel :: "nat list \<Rightarrow> nat \<Rightarrow> nat list" where
  "unravel [] k = []"
| "unravel (n # ns) k = (k div prod_list ns) # unravel ns (k mod prod_list ns)"

text \<open>
  \<open>a[i, j, ...]\<close> with non-negative indices: IndexError when the number of indices
  is not the number of axes or an index is out of range.
\<close>

definition item :: "'a ndarray \<Rightarrow> nat list \<Rightarrow> error + 'a" where
  "item a idx =
     (if length idx = length (shape a) \<and> list_all2 (<) idx (shape a)
      then Inr (data a ! ravel (shape a) idx)
      else Inl (IndexError ''index out of bounds''))"

text \<open>\<open>a.T\<close>: the axes reversed, the result laid out row-major again.\<close>

definition transpose_nd :: "'a ndarray \<Rightarrow> 'a ndarray" where
  "transpose_nd a =
     NDArray (rev (shape a))
       (map (\<lambda>k. data a ! ravel (shape a) (rev (unravel (rev (shape a)) k)))
            [0..<prod_list (shape a)])"

text \<open>\<open>a - c\<close> for a scalar \<open>c\<close>: element-wise.\<close>

definition sub_scalar :: "'a::minus ndarray \<Rightarrow> 'a \<Rightarrow> 'a ndarray" where
  "sub_scalar a c = NDArray (shape a) (map (\<lambda>x. x - c) (data a))"

text \<open>
  \<open>a.reshape(-1, 2)\<close>: numpy raises ValueError when the number of elements is odd.
\<close>

definition reshape_m1_2 :: "'a ndarray \<Rightarrow> error + 'a ndarray" where
  "reshape_m1_2 a =
     (if prod_list (shape a) mod 2 = 0
      then Inr (NDArray [prod_list (shape a) div 2, 2] (data a))
      else Inl (ValueError ''cannot reshape array''))"

text \<open>\<open>v[:, c]\<close> for a two-dimensional \<open>v\<close>.\<close>

definition column :: "'a ndarray \<Rightarrow> nat \<Rightarrow> error + 'a ndarray" where
  "column v c =
     (case shape v of
        [m, n] \<Rightarrow>
          if c < n then Inr (NDArray [m] (map (\<lambda>i. data v ! (i * n + c)) [0..<m]))
          else Inl (IndexError ''index out of bounds'')
      | _ \<Rightarrow> Inl (IndexError ''too many indices for array''))"

text \<open>
  \<open>s.lower()\<close>. Strings are byte strings here; only the ASCII capitals change. A
  non-ASCII character of a Python string never lowers to a string of ASCII letters
  that occurs in the alias lists below, so membership in those lists is decided
  the same way.
\<close>

definition lower_char :: "char \<Rightarrow> char" where
  "lower_char c =
     (let n = (of_char c :: nat) in if 65 \<le> n \<and> n \<le> 90 then char_of (n + 32) else c)"

definition lower :: "string \<Rightarrow> string" where
  "lower s = map lower_char s"

text \<open>
  The attributes of a Python \<open>str\<close> object (\<open>dir('')\<close>); \<open>hasattr(s, a)\<close> on a string
  \<open>s\<close> is membership in this list, whatever the characters of \<open>s\<close> are.
\<close>

definition str_attr_names :: "string list" where
  "str_attr_names =
     [''__add__'', ''__class__'', ''__contains__'', ''__delattr__'', ''__dir__'',
      ''__doc__'', ''__eq__'', ''__format__'', ''__ge__'', ''__getattribute__'',
      ''__getitem__'', ''__getnewargs__'', ''__getstate__'', ''__gt__'', ''__hash__'',
      ''__init__'', ''__init_subclass__'', ''__iter__'', ''__le__'', ''__len__'',
      ''__lt__'', ''__mod__'', ''__mul__'', ''__ne__'', ''__new__'', ''__reduce__'',
      ''__reduce_ex__'', ''__repr__'', ''__rmod__'', ''__rmul__'', ''__setattr__'',
      ''__sizeof__'', ''__str__'', ''__subclasshook__'',
      ''capitalize'', ''casefold'', ''center'', ''count'', ''encode'', ''endswith'',
      ''expandtabs'', ''find'', ''format'', ''format_map'', ''index'', ''isalnum'',
      ''isalpha'', ''isascii'', ''isdecimal'', ''isdigit'', ''isidentifier'',
      ''islower'', ''isnumeric'', ''isprintable'', ''isspace'', ''istitle'',
      ''isupper'', ''join'', ''ljust'', ''lower'', ''lstrip'', ''maketrans'',
      ''partition'', ''removeprefix'', ''removesuffix'', ''replace'', ''rfind'',
      ''rindex'', ''rjust'', ''rpartition'', ''rsplit'', ''rstrip'', ''split'',
      ''splitlines'', ''startswith'', ''strip'', ''swapcase'', ''title'',
      ''translate'', ''upper'', ''zfill'']"

definition str_hasattr :: "string \<Rightarrow> string \<Rightarrow> bool" where
  "str_hasattr s a = (a \<in> set str_attr_names)"

section \<open>The netCDF dataset\<close>

text \<open>
  A netCDF variable: its attributes and its values (\<open>var[:]\<close> reads them all). A
  dataset: its global attributes and \<open>dataset.variables\<close>, the ordered dictionary
  from variable name to variable.
\<close>

datatype 'a nc_variable = Variable (ncattrs: "(string \<times> string) list") (vals: "'a ndarray")

datatype 'a nc_dataset =
  NCDataset (ds_ncattrs: "(string \<times> string) list") (variables: "(string \<times> 'a nc_variable) list")

text \<open>The values of the dictionary \<open>init_args\<close>.\<close>

datatype 'a pyval = PyNone | PyStr string | PyArr "'a ndarray"

datatype grid_kind = Grid_U | Grid_S

section \<open>Grid._find_required_grid_attrs\<close>

definition node_attrs :: "string list" where
  "node_attrs = [''node_lon'', ''node_lat'']"

definition node_coord_names :: "(string \<times> string) list" where
  "node_coord_names = [(''node_lon'', ''node_lat''), (''lon'', ''lat''), (''lon_psi'', ''lat_psi'')]"

definition composite_node_names :: "string list" where
  "composite_node_names = [''nodes'', ''node'']"

text \<open>
  \<open>for n1, n2 in names: if n1 in gf_vars and n2 in gf_vars: ...; break\<close>, storing
  under the attribute names \<open>attr\<close>. The same loop serves the node, center and edge
  coordinates.
\<close>

fun coord_pair_loop ::
  "string list \<Rightarrow> (string \<times> string) list \<Rightarrow> (string \<times> 'a nc_variable) list \<Rightarrow>
   (string \<times> 'a pyval) list \<Rightarrow> (string \<times> 'a pyval) list" where
  "coord_pair_loop attr [] gf_vars init_args = init_args"
| "coord_pair_loop attr ((n1, n2) # rest) gf_vars init_args =
     (case (map_of gf_vars n1, map_of gf_vars n2) of
        (Some v1, Some v2) \<Rightarrow>
          AList.update (attr ! 1) (PyArr (vals v2))
            (AList.update (attr ! 0) (PyArr (vals v1)) init_args)
      | _ \<Rightarrow> coord_pair_loop attr rest gf_vars init_args)"

text \<open>
  \<open>v = var[:].reshape(-1, 2); init_args['node_lon'] = v[:, 0];
  init_args['node_lat'] = v[:, 1]\<close>.
\<close>

definition store_composite ::
  "'a ndarray \<Rightarrow> (string \<times> 'a pyval) list \<Rightarrow> error + (string \<times> 'a pyval) list" where
  "store_composite a init_args =
     (case reshape_m1_2 a of
        Inl e \<Rightarrow> Inl e
      | Inr v \<Rightarrow>
          (case column v 0 of
             Inl e \<Rightarrow> Inl e
           | Inr c0 \<Rightarrow>
               (case column v 1 of
                  Inl e \<Rightarrow> Inl e
                | Inr c1 \<Rightarrow>
                    Inr (AList.update (node_attrs ! 1) (PyArr c1)
                          (AList.update (node_attrs ! 0) (PyArr c0) init_args)))))"

fun composite_loop ::
  "string list \<Rightarrow> (string \<times> 'a nc_variable) list \<Rightarrow> (string \<times> 'a pyval) list \<Rightarrow>
   error + (string \<times> 'a pyval) list" where
  "composite_loop [] gf_vars init_args = Inr init_args"
| "composite_loop (n # ns) gf_vars init_args =
     (case map_of gf_vars n of
        Some var \<Rightarrow> store_composite (vals var) init_args
      | None \<Rightarrow> composite_loop ns gf_vars init_args)"

text \<open>
  The branch for a given \<open>grid_topology\<close>: \<open>for n, v in grid_topology.items()\<close>.
  \<open>gf_vars[v]\<close> and \<open>gf_vars[n]\<close> raise KeyError for a name the dataset lacks.
\<close>

fun topology_loop ::
  "(string \<times> string) list \<Rightarrow> (string \<times> 'a nc_variable) list \<Rightarrow> (string \<times> 'a pyval) list \<Rightarrow>
   error + (string \<times> 'a pyval) list" where
  "topology_loop [] gf_vars init_args = Inr init_args"
| "topology_loop ((n, v) # rest) gf_vars init_args =
     (case (if n \<in> set node_attrs
            then (case map_of gf_vars v of
                    None \<Rightarrow> Inl (KeyError v)
                  | Some var \<Rightarrow> Inr (AList.update n (PyArr (vals var)) init_args))
            else Inr init_args) of
        Inl e \<Rightarrow> Inl e
      | Inr init_args1 \<Rightarrow>
          (case (if n \<in> set composite_node_names
                 then (case map_of gf_vars n of
                         None \<Rightarrow> Inl (KeyError n)
                       | Some var \<Rightarrow> store_composite (vals var) init_args1)
                 else Inr init_args1) of
             Inl e \<Rightarrow> Inl e
           | Inr init_args2 \<Rightarrow> topology_loop rest gf_vars init_args2))"

text \<open>
  \<open>Grid._find_required_grid_attrs(filename, dataset, grid_topology)\<close>. The parameter
  \<open>dataset\<close> is the opened dataset: the argument \<open>dataset\<close> when it is given, else
  what \<open>get_dataset(filename)\<close> opens (see \<open>Grid_from_netCDF\<close> below).
  \<open>grid_topology\<close> is the dictionary's items in their order, or \<open>None\<close>.
\<close>

definition Grid_find_required_grid_attrs ::
  "'a pyval \<Rightarrow> 'a nc_dataset \<Rightarrow> (string \<times> string) list option \<Rightarrow>
   error + (string \<times> 'a pyval) list \<times> (string \<times> 'a nc_variable) list" where
  "Grid_find_required_grid_attrs filename dataset grid_topology =
     (let gf_vars = variables dataset;
          init_args = [(''filename'', filename)]
      in case grid_topology of
           None \<Rightarrow>
             (let init_args1 = coord_pair_loop node_attrs node_coord_names gf_vars init_args
              in case (if node_attrs ! 0 \<notin> fst ` set init_args1
                       then composite_loop composite_node_names gf_vars init_args1
                       else Inr init_args1) of
                   Inl e \<Rightarrow> Inl e
                 | Inr init_args2 \<Rightarrow>
                     if node_attrs ! 0 \<notin> fst ` set init_args2
                     then Inl (ValueError ''Unable to find node coordinates.'')
                     else Inr (init_args2, gf_vars))
         | Some topo \<Rightarrow>
             (case topology_loop topo gf_vars init_args of
                Inl e \<Rightarrow> Inl e
              | Inr init_args1 \<Rightarrow> Inr (init_args1, gf_vars)))"

section \<open>Grid_U._find_required_grid_attrs\<close>

definition face_attrs :: "string list" where
  "face_attrs = [''faces'']"

text \<open>
  \<open>for n in face_var_names: if n in gf_vars: init_args['faces'] = gf_vars[n][:];
  break\<close>. A name is \<open>None\<close> when \<open>grid_topology.get\<close> found no entry.
\<close>

fun faces_loop ::
  "string option list \<Rightarrow> (string \<times> 'a nc_variable) list \<Rightarrow> (string \<times> 'a pyval) list \<Rightarrow>
   (string \<times> 'a pyval) list" where
  "faces_loop [] gf_vars init_args = init_args"
| "faces_loop (None # ns) gf_vars init_args = faces_loop ns gf_vars init_args"
| "faces_loop (Some n # ns) gf_vars init_args =
     (case map_of gf_vars n of
        Some var \<Rightarrow> AList.update (face_attrs ! 0) (PyArr (vals var)) init_args
      | None \<Rightarrow> faces_loop ns gf_vars init_args)"

text \<open>
  \<open>np.ascontiguousarray(np.array(faces).T - 1)\<close>.
\<close>

definition to_zero_based :: "'a::{one,minus} ndarray \<Rightarrow> 'a ndarray" where
  "to_zero_based f = sub_scalar (transpose_nd f) 1"

definition Grid_U_find_required_grid_attrs ::
  "'a pyval \<Rightarrow> 'a::{one,minus} nc_dataset \<Rightarrow> (string \<times> string) list option \<Rightarrow>
   error + (string \<times> 'a pyval) list \<times> (string \<times> 'a nc_variable) list" where
  "Grid_U_find_required_grid_attrs filename dataset grid_topology =
     (case Grid_find_required_grid_attrs filename dataset grid_topology of
        Inl e \<Rightarrow> Inl e
      | Inr (init_args, gf_vars) \<Rightarrow>
          (let face_var_names =
                 (case grid_topology of
                    Some topo \<Rightarrow> map (map_of topo) face_attrs
                  | None \<Rightarrow> map Some [''faces'', ''tris'', ''nv'', ''ele'']);
               init_args1 = faces_loop face_var_names gf_vars init_args
           in case map_of init_args1 (face_attrs ! 0) of
                None \<Rightarrow> Inl (ValueError ''Unable to find faces variable'')
              | Some (PyArr f) \<Rightarrow>
                  (case shape f of
                     [] \<Rightarrow> Inl (IndexError ''tuple index out of range'')
                   | d # _ \<Rightarrow>
                       if d = 3
                       then Inr (AList.update (face_attrs ! 0) (PyArr (to_zero_based f)) init_args1,
                                 gf_vars)
                       else Inr (init_args1, gf_vars))
              | Some _ \<Rightarrow> Inl (AttributeError ''shape'')))"

section \<open>Grid_S._find_required_grid_attrs\<close>

definition center_attrs :: "string list" where
  "center_attrs = [''center_lon'', ''center_lat'']"

definition edge1_attrs :: "string list" where
  "edge1_attrs = [''edge1_lon'', ''edge1_lat'']"

definition edge2_attrs :: "string list" where
  "edge2_attrs = [''edge2_lon'', ''edge2_lat'']"

definition center_coord_names :: "(string \<times> string) list" where
  "center_coord_names = [(''center_lon'', ''center_lat''), (''lon_rho'', ''lat_rho'')]"

definition edge1_coord_names :: "(string \<times> string) list" where
  "edge1_coord_names = [(''edge1_lon'', ''edge1_lat''), (''lon_u'', ''lat_u'')]"

definition edge2_coord_names :: "(string \<times> string) list" where
  "edge2_coord_names = [(''edge2_lon'', ''edge2_lat''), (''lon_v'', ''lat_v'')]"

fun s_topology_loop ::
  "(string \<times> string) list \<Rightarrow> (string \<times> 'a nc_variable) list \<Rightarrow> (string \<times> 'a pyval) list \<Rightarrow>
   (string \<times> 'a pyval) list" where
  "s_topology_loop [] gf_vars init_args = init_args"
| "s_topology_loop ((n, v) # rest) gf_vars init_args =
     (case (n \<in> set (center_attrs @ edge1_attrs @ edge2_attrs), map_of gf_vars v) of
        (True, Some var) \<Rightarrow>
          s_topology_loop rest gf_vars (AList.update n (PyArr (vals var)) init_args)
      | _ \<Rightarrow> s_topology_loop rest gf_vars init_args)"

definition Grid_S_find_required_grid_attrs ::
  "'a pyval \<Rightarrow> 'a nc_dataset \<Rightarrow> (string \<times> string) list option \<Rightarrow>
   error + (string \<times> 'a pyval) list \<times> (string \<times> 'a nc_variable) list" where
  "Grid_S_find_required_grid_attrs filename dataset grid_topology =
     (case Grid_find_required_grid_attrs filename dataset grid_topology of
        Inl e \<Rightarrow> Inl e
      | Inr (init_args, gf_vars) \<Rightarrow>
          (case grid_topology of
             None \<Rightarrow>
               Inr (fold (\<lambda>(attr, names) args. coord_pair_loop attr names gf_vars args)
                      (zip [center_attrs, edge1_attrs, edge2_attrs]
                           [center_coord_names, edge1_coord_names, edge2_coord_names])
                      init_args,
                    gf_vars)
           | Some topo \<Rightarrow> Inr (s_topology_loop topo gf_vars init_args, gf_vars)))"

section \<open>Grid._find_topology_var and Grid._get_grid_type\<close>

text \<open>
  \<open>for v in gf.variables\<close> iterates over the dictionary \<open>gf.variables\<close>, that is over
  its keys: \<open>v\<close> is a variable's name, a string. \<open>hasattr(v, 'cf_role')\<close> is asked
  of that string. Were it true, \<open>v.cf_role\<close> would be a method of \<open>str\<close>, and
  \<open>'topology' in v.cf_role\<close> would raise TypeError.
\<close>

fun topology_var_loop :: "string list \<Rightarrow> string list \<Rightarrow> error + string list" where
  "topology_var_loop [] gts = Inr gts"
| "topology_var_loop (v # vs) gts =
     (if str_hasattr v ''cf_role''
      then Inl (TypeError ''argument of type builtin_function_or_method is not iterable'')
      else topology_var_loop vs gts)"

definition Grid_find_topology_var :: "'a nc_dataset \<Rightarrow> error + string option" where
  "Grid_find_topology_var gf =
     (case topology_var_loop (map fst (variables gf)) [] of
        Inl e \<Rightarrow> Inl e
      | Inr gts \<Rightarrow> Inr (if length gts \<noteq> 0 then Some (gts ! 0) else None))"

definition sgrid_names :: "string list" where
  "sgrid_names = [''sgrid'', ''pygrid_s'', ''staggered'', ''curvilinear'', ''roms'']"

definition ugrid_names :: "string list" where
  "ugrid_names = [''ugrid'', ''pygrid_u'', ''triangular'', ''unstructured'']"

text \<open>
  The innermost \<open>else\<close> of \<open>_get_grid_type\<close>: neither argument given and no usable
  \<open>grid_type\<close> attribute on the dataset. \<open>except ValueError\<close> catches that
  exception only.
\<close>

definition grid_type_from_dataset :: "'a::{one,minus} nc_dataset \<Rightarrow> error + grid_kind" where
  "grid_type_from_dataset dataset =
     (case Grid_find_topology_var dataset of
        Inl e \<Rightarrow> Inl e
      | Inr (Some topology) \<Rightarrow>
          if str_hasattr topology ''node_coordinates'' \<and> \<not> str_hasattr topology ''node_dimensions''
          then Inr Grid_U
          else Inr Grid_S
      | Inr None \<Rightarrow>
          (case Grid_U_find_required_grid_attrs PyNone dataset None of
             Inr _ \<Rightarrow> Inr Grid_U
           | Inl (ValueError _) \<Rightarrow>
               (case Grid_S_find_required_grid_attrs PyNone dataset None of
                  Inl e \<Rightarrow> Inl e
                | Inr _ \<Rightarrow> Inr Grid_S)
           | Inl e \<Rightarrow> Inl e))"

definition Grid_get_grid_type ::
  "'a::{one,minus} nc_dataset \<Rightarrow> (string \<times> string) list option \<Rightarrow> string option \<Rightarrow>
   error + grid_kind" where
  "Grid_get_grid_type dataset grid_topology grid_type =
     (case grid_type of
        Some gt \<Rightarrow>
          if lower gt \<in> set sgrid_names then Inr Grid_S
          else if lower gt \<in> set ugrid_names then Inr Grid_U
          else Inl (ValueError ''Specified grid_type not recognized/supported'')
      | None \<Rightarrow>
          (case grid_topology of
             Some topo \<Rightarrow>
               if ''faces'' \<in> fst ` set topo \<or>
                  lower (case map_of topo ''grid_type'' of None \<Rightarrow> ''notype'' | Some t \<Rightarrow> t)
                    \<in> set ugrid_names
               then Inr Grid_U
               else Inr Grid_S
           | None \<Rightarrow>
               (case map_of (ds_ncattrs dataset) ''grid_type'' of
                  Some g \<Rightarrow>
                    if g \<in> set (sgrid_names @ ugrid_names)
                    then (if lower g \<in> set ugrid_names then Inr Grid_U else Inr Grid_S)
                    else grid_type_from_dataset dataset
                | None \<Rightarrow> grid_type_from_dataset dataset)))"

section \<open>Grid instances\<close>

text \<open>
  An instance of \<open>Grid_U\<close> or \<open>Grid_S\<close>: its class and its attribute dictionary.
  \<open>hasattr(g, n)\<close> is membership of \<open>n\<close> in the keys, \<open>getattr(g, n)\<close> the lookup.
  Instances live in a store indexed by references, and \<open>self is o\<close> compares
  references.
\<close>

datatype 'a grid = GridObj (cls_of: grid_kind) (attrs: "(string \<times> 'a pyval) list")

section \<open>Grid.__eq__\<close>

text \<open>
  \<open>for n in ('nodes', 'faces')\<close>. \<open>s.shape != s2.shape or np.any(s != s2)\<close> compares
  the elements only when the shapes agree; \<open>.shape\<close> of a string raises
  AttributeError. The element-wise \<open>!=\<close> is that of the arrays' dtype, the
  parameter \<open>ne\<close>: inequality for an integer dtype, and for a floating dtype a
  relation in which NaN differs from every value, itself included.
\<close>

fun eq_loop ::
  "('a \<Rightarrow> 'a \<Rightarrow> bool) \<Rightarrow> string list \<Rightarrow> (string \<times> 'a pyval) list \<Rightarrow>
   (string \<times> 'a pyval) list \<Rightarrow> error + bool" where
  "eq_loop ne [] self other = Inr True"
| "eq_loop ne (n # ns) self other =
     (case (map_of self n, map_of other n) of
        (Some a, Some b) \<Rightarrow>
          if a \<noteq> PyNone \<and> b \<noteq> PyNone
          then (case (a, b) of
                  (PyArr s, PyArr s2) \<Rightarrow>
                    if shape s \<noteq> shape s2 \<or> list_ex (\<lambda>(x, y). ne x y) (zip (data s) (data s2))
                    then Inr False
                    else eq_loop ne ns self other
                | _ \<Rightarrow> Inl (AttributeError ''shape''))
          else eq_loop ne ns self other
      | _ \<Rightarrow> eq_loop ne ns self other)"

definition Grid_eq ::
  "('a \<Rightarrow> 'a \<Rightarrow> bool) \<Rightarrow> (nat \<Rightarrow> 'a grid) \<Rightarrow> nat \<Rightarrow> nat \<Rightarrow> error + bool" where
  "Grid_eq ne store self other =
     (if self = other then Inr True
      else eq_loop ne [''nodes'', ''faces''] (attrs (store self)) (attrs (store other)))"

section \<open>Grid.__new__, Grid.__init__, Grid.from_netCDF and Grid.new_from_dict\<close>

text \<open>\<open>str(n)\<close> for an integer.\<close>

fun str_nat :: "nat \<Rightarrow> string" where
  "str_nat n =
     (if n < 10 then [char_of (48 + n)] else str_nat (n div 10) @ [char_of (48 + n mod 10)])"

declare str_nat.simps [simp del]

definition str_int :: "int \<Rightarrow> string" where
  "str_int i = (if i < 0 then CHR ''-'' # str_nat (nat (- i)) else str_nat (nat i))"

definition class_name :: "grid_kind \<Rightarrow> string" where
  "class_name cls = (case cls of Grid_U \<Rightarrow> ''Grid_U'' | Grid_S \<Rightarrow> ''Grid_S'')"

text \<open>The class a constructor call names: \<open>Grid\<close> itself or one of its two subclasses.\<close>

datatype grid_class = Grid | Subclass grid_kind

text \<open>
  \<open>object.__new__(cls, **kwargs)\<close> of Python 3 for a class whose \<open>__new__\<close> is
  overridden, as it is for \<open>Grid\<close> and its subclasses: TypeError when any argument
  besides the class is given, else a new instance of the class.
\<close>

definition object_new :: "grid_kind \<Rightarrow> (string \<times> 'a pyval) list \<Rightarrow> error + grid_kind" where
  "object_new cls kwargs =
     (if kwargs = [] then Inr cls
      else Inl (TypeError ''object.__new__() takes exactly one argument (the type to instantiate)''))"

text \<open>
  \<open>Grid.__new__(cls, **kwargs)\<close>: \<open>Grid\<close> itself is replaced by \<open>Grid_U\<close> when \<open>faces\<close> is
  a keyword and by \<open>Grid_S\<close> otherwise; \<open>super(type(cls), cls).__new__\<close> is
  \<open>object.__new__\<close>, called with all the keywords.
\<close>

definition Grid_new :: "grid_class \<Rightarrow> (string \<times> 'a pyval) list \<Rightarrow> error + grid_kind" where
  "Grid_new cls kwargs =
     (let cls1 = (case cls of
                    Subclass k \<Rightarrow> k
                  | Grid \<Rightarrow> if ''faces'' \<in> fst ` set kwargs then Grid_U else Grid_S)
      in object_new cls1 kwargs)"

text \<open>
  \<open>Grid.__init__\<close> binds \<open>init_args['filename']\<close> to its parameter \<open>filename\<close> and
  passes the other entries on to the initialiser of the base class
  (\<open>pyugrid.UGrid\<close> or \<open>pysgrid.SGrid\<close>), which is outside this module: the
  parameter \<open>base_init\<close> gives the attributes it sets, or its exception.
  \<open>def_count\<close> is the class attribute \<open>_def_count\<close> as each class reads it.
\<close>

definition Grid_init ::
  "(grid_kind \<Rightarrow> (string \<times> 'a pyval) list \<Rightarrow> error + (string \<times> 'a pyval) list) \<Rightarrow>
   (grid_kind \<Rightarrow> int) \<Rightarrow> grid_kind \<Rightarrow> (string \<times> 'a pyval) list \<Rightarrow>
   error + 'a grid \<times> (grid_kind \<Rightarrow> int)" where
  "Grid_init base_init def_count cls init_args =
     (let filename = (case map_of init_args ''filename'' of Some f \<Rightarrow> f | None \<Rightarrow> PyNone);
          kwargs = AList.delete ''filename'' init_args
      in case base_init cls kwargs of
           Inl e \<Rightarrow> Inl e
         | Inr self \<Rightarrow>
             (let name = (case map_of kwargs ''name'' of
                            Some n \<Rightarrow> n
                          | None \<Rightarrow> PyStr (class_name cls @ ''_'' @ str_int (def_count cls)));
                  self1 = AList.update ''name'' name self;
                  self2 = AList.update ''obj_type''
                            (PyStr (''<class '' @ [CHR 0x27] @ ''gridded.gridded.Grid'' @ [CHR 0x27] @ ''>''))
                            self1;
                  self3 = AList.update ''filename'' filename self2
              in Inr (GridObj cls self3, def_count(cls := def_count cls + 1))))"

text \<open>
  The call \<open>cls(**init_args)\<close>: \<open>Grid.__new__\<close> with all the keywords, then
  \<open>Grid.__init__\<close> on the instance it returns.
\<close>

definition Grid_call ::
  "(grid_kind \<Rightarrow> (string \<times> 'a pyval) list \<Rightarrow> error + (string \<times> 'a pyval) list) \<Rightarrow>
   (grid_kind \<Rightarrow> int) \<Rightarrow> grid_class \<Rightarrow> (string \<times> 'a pyval) list \<Rightarrow>
   error + 'a grid \<times> (grid_kind \<Rightarrow> int)" where
  "Grid_call base_init def_count cls init_args =
     (case Grid_new cls init_args of
        Inl e \<Rightarrow> Inl e
      | Inr k \<Rightarrow> Grid_init base_init def_count k init_args)"

text \<open>
  \<open>Grid.from_netCDF\<close>. \<open>get_dataset(filename, dataset)\<close> of the module
  \<open>utilities\<close> opens the file; it is the parameter \<open>get_dataset\<close>.
\<close>

definition Grid_from_netCDF ::
  "('a pyval \<Rightarrow> 'a nc_dataset option \<Rightarrow> error + 'a::{one,minus} nc_dataset) \<Rightarrow>
   (grid_kind \<Rightarrow> (string \<times> 'a pyval) list \<Rightarrow> error + (string \<times> 'a pyval) list) \<Rightarrow>
   (grid_kind \<Rightarrow> int) \<Rightarrow> 'a pyval \<Rightarrow> 'a nc_dataset option \<Rightarrow> string option \<Rightarrow>
   (string \<times> string) list option \<Rightarrow> error + 'a grid \<times> (grid_kind \<Rightarrow> int)" where
  "Grid_from_netCDF get_dataset base_init def_count filename dataset grid_type grid_topology =
     (case (if filename = PyNone then Inr dataset
            else (case get_dataset filename dataset of Inl e \<Rightarrow> Inl e | Inr d \<Rightarrow> Inr (Some d))) of
        Inl e \<Rightarrow> Inl e
      | Inr None \<Rightarrow> Inl (ValueError ''No filename or dataset provided'')
      | Inr (Some gf) \<Rightarrow>
          (case Grid_get_grid_type gf grid_topology grid_type of
             Inl e \<Rightarrow> Inl e
           | Inr cls \<Rightarrow>
               (case (case dataset of Some d \<Rightarrow> Inr d | None \<Rightarrow> get_dataset filename None) of
                  Inl e \<Rightarrow> Inl e
                | Inr ds \<Rightarrow>
                    (case (case cls of
                             Grid_U \<Rightarrow> Grid_U_find_required_grid_attrs filename ds grid_topology
                           | Grid_S \<Rightarrow> Grid_S_find_required_grid_attrs filename ds grid_topology) of
                       Inl e \<Rightarrow> Inl e
                     | Inr (init_args, gf_vars) \<Rightarrow>
                         Grid_call base_init def_count (Subclass cls) init_args))))"


section \<open>Example inputs\<close>

text \<open>
  A mesh of four nodes and two triangles, the connectivity stored triangle-major
  and one-based under the name \<open>nv\<close>.
\<close>

definition triangle_dataset :: "int nc_dataset" where
  "triangle_dataset =
     NCDataset []
       [(''lon'', Variable [] (NDArray [4] [10, 11, 12, 13])),
        (''lat'', Variable [] (NDArray [4] [50, 51, 52, 53])),
        (''nv'', Variable [] (NDArray [3, 2] [1, 2, 2, 3, 3, 4]))]"

text \<open>The same mesh with the connectivity stored face-major and zero-based.\<close>

definition face_major_dataset :: "int nc_dataset" where
  "face_major_dataset =
     NCDataset []
       [(''lon'', Variable [] (NDArray [4] [10, 11, 12, 13])),
        (''lat'', Variable [] (NDArray [4] [50, 51, 52, 53])),
        (''faces'', Variable [] (NDArray [2, 3] [0, 1, 2, 1, 2, 3]))]"

text \<open>
  A dataset with a UGRID topology variable (\<open>cf_role\<close>, \<open>node_coordinates\<close>, no
  \<open>node_dimensions\<close>) and node coordinates, without a connectivity variable.
\<close>

definition topology_dataset :: "int nc_dataset" where
  "topology_dataset =
     NCDataset []
       [(''mesh'', Variable [(''cf_role'', ''mesh_topology''), (''node_coordinates'', ''lon lat'')]
                     (NDArray [] [0])),
        (''lon'', Variable [] (NDArray [2] [10, 20])),
        (''lat'', Variable [] (NDArray [2] [30, 40]))]"

text \<open>Node coordinates stored as one composite \<open>(N, 2)\<close> variable.\<close>

definition composite_dataset :: "int nc_dataset" where
  "composite_dataset =
     NCDataset [] [(''node'', Variable [] (NDArray [3, 2] [10, 50, 11, 51, 12, 52]))]"

text \<open>A ROMS-like dataset: \<open>lon_psi/lat_psi\<close> and \<open>lon_rho/lat_rho\<close>.\<close>

definition psi_dataset :: "int nc_dataset" where
  "psi_dataset =
     NCDataset []
       [(''lon_rho'', Variable [] (NDArray [1, 2] [7, 8])),
        (''lat_rho'', Variable [] (NDArray [1, 2] [9, 10])),
        (''lon_psi'', Variable [] (NDArray [2, 2] [1, 2, 3, 4])),
        (''lat_psi'', Variable [] (NDArray [2, 2] [5, 6, 7, 8]))]"

text \<open>Composite node coordinates under a name of the dataset's own.\<close>

definition renamed_nodes_dataset :: "int nc_dataset" where
  "renamed_nodes_dataset =
     NCDataset [] [(''xy'', Variable [] (NDArray [2, 2] [1, 2, 3, 4]))]"

text \<open>Two composite variables with different contents.\<close>

definition two_nodes_dataset :: "int nc_dataset" where
  "two_nodes_dataset =
     NCDataset []
       [(''nodes'', Variable [] (NDArray [2, 2] [1, 2, 3, 4])),
        (''xy'', Variable [] (NDArray [2, 2] [5, 6, 7, 8]))]"

text \<open>
  A store of grid instances: four unstructured grids (0 and 1 with the same nodes
  and faces, 2 with other nodes, 3 with other faces) and two structured grids (4
  and 5) with different node coordinates.
\<close>

definition example_grids :: "int grid list" where
  "example_grids =
     [GridObj Grid_U
        [(''nodes'', PyArr (NDArray [3, 2] [0, 0, 1, 0, 0, 1])),
         (''faces'', PyArr (NDArray [1, 3] [0, 1, 2])),
         (''name'', PyStr ''Grid_U_0''), (''filename'', PyNone)],
      GridObj Grid_U
        [(''nodes'', PyArr (NDArray [3, 2] [0, 0, 1, 0, 0, 1])),
         (''faces'', PyArr (NDArray [1, 3] [0, 1, 2])),
         (''name'', PyStr ''Grid_U_1''), (''filename'', PyStr ''mesh.nc'')],
      GridObj Grid_U
        [(''nodes'', PyArr (NDArray [3, 2] [0, 0, 5, 0, 0, 5])),
         (''faces'', PyArr (NDArray [1, 3] [0, 1, 2])),
         (''name'', PyStr ''Grid_U_2''), (''filename'', PyNone)],
      GridObj Grid_U
        [(''nodes'', PyArr (NDArray [3, 2] [0, 0, 1, 0, 0, 1])),
         (''faces'', PyArr (NDArray [1, 3] [2, 1, 0])),
         (''name'', PyStr ''Grid_U_3''), (''filename'', PyNone)],
      GridObj Grid_S
        [(''node_lon'', PyArr (NDArray [2, 2] [1, 2, 3, 4])),
         (''node_lat'', PyArr (NDArray [2, 2] [5, 6, 7, 8])),
         (''name'', PyStr ''Grid_S_0'')],
      GridObj Grid_S
        [(''node_lon'', PyArr (NDArray [1, 3] [100, 101, 102])),
         (''node_lat'', PyArr (NDArray [1, 3] [-5, -6, -7])),
         (''name'', PyStr ''Grid_S_1'')]]"

definition example_store :: "nat \<Rightarrow> int grid" where
  "example_store r = (if r < length example_grids then example_grids ! r else GridObj Grid_S [])"






text \<open>
  A dtype with a NaN: \<open>None\<close> stands for NaN, which differs from every value. Two
  grids hold the same \<open>nodes\<close> array, one element of which is NaN.
\<close>

definition nan_ne :: "int option \<Rightarrow> int option \<Rightarrow> bool" where
  "nan_ne x y = (x = None \<or> y = None \<or> x \<noteq> y)"

definition nan_store :: "nat \<Rightarrow> int option grid" where
  "nan_store r = GridObj Grid_S [(''nodes'', PyArr (NDArray [1, 2] [Some 1, None]))]"

section \<open>Facts about arrays and dictionaries\<close>

lemma in_keys_iff: "k \<in> fst ` set al \<longleftrightarrow> map_of al k \<noteq> None"
  by (simp add: map_of_eq_None_iff)

lemma item_2d:
  assumes "shape a = [m, n]" "j < m" "i < n"
  shows "item a [j, i] = Inr (data a ! (j * n + i))"
  using assms by (simp add: item_def)

lemma item_to_zero_based_2d:
  assumes "shape a = [m, n]" "i < n" "j < m"
  shows "item (to_zero_based a) [i, j] = Inr (data a ! (j * n + i) - 1)"
proof -
  have "i * m + j < i * m + m" using assms by simp
  also have "\<dots> = (Suc i) * m" by simp
  also have "\<dots> \<le> n * m" using assms by (intro mult_le_mono1) simp
  finally have lt: "i * m + j < m * n" by (simp add: mult.commute)
  show ?thesis
    using assms lt by (simp add: item_def to_zero_based_def sub_scalar_def transpose_nd_def)
qed

lemma shape_to_zero_based: "shape (to_zero_based a) = rev (shape a)"
  by (simp add: to_zero_based_def sub_scalar_def transpose_nd_def)

section \<open>The loops as searches\<close>

lemma coord_pair_loop_find:
  "coord_pair_loop attr names gf_vars init_args =
     (case List.find (\<lambda>(n1, n2). n1 \<in> fst ` set gf_vars \<and> n2 \<in> fst ` set gf_vars) names of
        None \<Rightarrow> init_args
      | Some (n1, n2) \<Rightarrow>
          AList.update (attr ! 1) (PyArr (vals (the (map_of gf_vars n2))))
            (AList.update (attr ! 0) (PyArr (vals (the (map_of gf_vars n1)))) init_args))"
proof (induction names)
  case Nil
  then show ?case by simp
next
  case (Cons p names)
  obtain n1 n2 where p: "p = (n1, n2)" by (cases p)
  show ?case
    using Cons by (auto simp: p in_keys_iff split: option.splits)
qed

lemma composite_loop_find:
  "composite_loop names gf_vars init_args =
     (case List.find (\<lambda>n. n \<in> fst ` set gf_vars) names of
        None \<Rightarrow> Inr init_args
      | Some n \<Rightarrow> store_composite (vals (the (map_of gf_vars n))) init_args)"
proof (induction names)
  case Nil
  then show ?case by simp
next
  case (Cons n names)
  then show ?case by (auto simp: in_keys_iff split: option.splits)
qed

lemma store_composite_N2:
  assumes "shape a = [N, 2]"
  shows "store_composite a init_args =
     Inr (AList.update ''node_lat'' (PyArr (NDArray [N] (map (\<lambda>i. data a ! (i * 2 + 1)) [0..<N])))
           (AList.update ''node_lon'' (PyArr (NDArray [N] (map (\<lambda>i. data a ! (i * 2)) [0..<N]))) init_args))"
  using assms by (simp add: store_composite_def reshape_m1_2_def column_def node_attrs_def)

lemma faces_loop_find:
  "faces_loop (map Some names) gf_vars init_args =
     (case List.find (\<lambda>n. n \<in> fst ` set gf_vars) names of
        None \<Rightarrow> init_args
      | Some n \<Rightarrow> AList.update ''faces'' (PyArr (vals (the (map_of gf_vars n)))) init_args)"
proof (induction names)
  case Nil
  then show ?case by simp
next
  case (Cons n names)
  then show ?case by (auto simp: in_keys_iff face_attrs_def split: option.splits)
qed

lemma base_gf_vars:
  "Grid_find_required_grid_attrs filename dataset topo = Inr (init_args, gf_vars) \<Longrightarrow>
   gf_vars = variables dataset"
  by (auto simp: Grid_find_required_grid_attrs_def Let_def split: option.splits sum.splits if_splits)

lemma Grid_U_faces_found:
  assumes base: "Grid_find_required_grid_attrs filename dataset None = Inr (init_args, gf_vars)"
    and found: "List.find (\<lambda>n. n \<in> fst ` set (variables dataset)) [''faces'', ''tris'', ''nv'', ''ele''] = Some name"
    and var: "map_of (variables dataset) name = Some var"
  shows "Grid_U_find_required_grid_attrs filename dataset None =
           (case shape (vals var) of
              [] \<Rightarrow> Inl (IndexError ''tuple index out of range'')
            | d # _ \<Rightarrow>
                Inr (AList.update ''faces''
                       (PyArr (if d = 3 then to_zero_based (vals var) else vals var)) init_args,
                     variables dataset))"
proof -
  have gf: "gf_vars = variables dataset" using base by (rule base_gf_vars)
  have "faces_loop (map Some [''faces'', ''tris'', ''nv'', ''ele'']) gf_vars init_args =
      AList.update ''faces'' (PyArr (vals var)) init_args"
    unfolding faces_loop_find using found var gf by simp
  then have loop: "faces_loop [Some ''faces'', Some ''tris'', Some ''nv'', Some ''ele''] gf_vars init_args =
      AList.update ''faces'' (PyArr (vals var)) init_args"
    by (simp del: faces_loop.simps)
  show ?thesis
    unfolding Grid_U_find_required_grid_attrs_def base
    by (simp add: loop [unfolded gf] gf face_attrs_def AList.update_conv' Let_def
          del: faces_loop.simps split: list.splits)
qed


section \<open>Node coordinates without and with a topology mapping\<close>

lemma node_coordinates_required_without_topology:
  assumes "Grid_find_required_grid_attrs filename dataset None = Inr (init_args, gf_vars)"
  shows "''node_lon'' \<in> fst ` set init_args"
  using assms
  by (auto simp: Grid_find_required_grid_attrs_def Let_def node_attrs_def split: sum.splits if_splits)

lemma no_node_coordinates_without_topology:
  assumes "List.find (\<lambda>(n1, n2). n1 \<in> fst ` set (variables dataset) \<and> n2 \<in> fst ` set (variables dataset))
             [(''node_lon'', ''node_lat''), (''lon'', ''lat''), (''lon_psi'', ''lat_psi'')] = None"
    and "List.find (\<lambda>n. n \<in> fst ` set (variables dataset)) [''nodes'', ''node''] = None"
  shows "Grid_find_required_grid_attrs filename dataset None =
           Inl (ValueError ''Unable to find node coordinates.'')"
proof -
  have loop: "coord_pair_loop node_attrs node_coord_names (variables dataset) [(''filename'', filename)] =
      [(''filename'', filename)]"
    unfolding coord_pair_loop_find using assms by (simp add: node_coord_names_def)
  have comp: "composite_loop composite_node_names (variables dataset) [(''filename'', filename)] =
      Inr [(''filename'', filename)]"
    unfolding composite_loop_find using assms by (simp add: composite_node_names_def)
  show ?thesis
    by (simp add: Grid_find_required_grid_attrs_def Let_def loop [unfolded node_attrs_def] comp node_attrs_def)
qed

lemma topology_node_entries:
  assumes "map_of (variables dataset) v1 = Some var1" "map_of (variables dataset) v2 = Some var2"
  shows "Grid_find_required_grid_attrs filename dataset (Some [(''node_lon'', v1), (''node_lat'', v2)]) =
           Inr ([(''filename'', filename), (''node_lon'', PyArr (vals var1)), (''node_lat'', PyArr (vals var2))],
                variables dataset)"
  using assms
  by (simp add: Grid_find_required_grid_attrs_def node_attrs_def composite_node_names_def)

section \<open>The search for a topology variable\<close>

lemma str_has_no_cf_role: "\<not> str_hasattr v ''cf_role''"
  by (simp add: str_hasattr_def str_attr_names_def)

lemma topology_var_loop_keeps: "topology_var_loop vs gts = Inr gts"
  by (induction vs) (simp_all add: str_has_no_cf_role)

lemma find_topology_var_None: "Grid_find_topology_var gf = Inr None"
  by (simp add: Grid_find_topology_var_def topology_var_loop_keeps)

section \<open>Facts about the comparison loop\<close>

lemma zip_all_equal:
  "list_all2 (\<lambda>x y. \<not> ne x y) xs ys \<Longrightarrow> \<not> list_ex (\<lambda>(x, y). ne x y) (zip xs ys)"
  by (induction xs ys rule: list_all2_induct) simp_all

lemma zip_one_differs:
  assumes "i < length xs" "i < length ys" "ne (xs ! i) (ys ! i)"
  shows "list_ex (\<lambda>(x, y). ne x y) (zip xs ys)"
proof -
  have "(xs ! i, ys ! i) \<in> set (zip xs ys)"
    using assms by (auto simp: set_zip)
  then show ?thesis using assms by (auto simp: list_ex_iff)
qed

lemma eq_loop_skip:
  assumes "map_of s n \<in> {None, Some PyNone} \<or> map_of t n \<in> {None, Some PyNone}"
  shows "eq_loop ne (n # ns) s t = eq_loop ne ns s t"
  using assms by (auto split: option.splits pyval.splits)

lemma eq_loop_same:
  assumes "map_of s n = Some (PyArr x)" "map_of t n = Some (PyArr y)"
    and "shape x = shape y" "list_all2 (\<lambda>u v. \<not> ne u v) (data x) (data y)"
  shows "eq_loop ne (n # ns) s t = eq_loop ne ns s t"
  using assms by (simp add: zip_all_equal)

lemma eq_loop_differ:
  assumes "map_of s n = Some (PyArr x)" "map_of t n = Some (PyArr y)"
    and "shape x \<noteq> shape y \<or>
         (\<exists>i. i < length (data x) \<and> i < length (data y) \<and> ne (data x ! i) (data y ! i))"
  shows "eq_loop ne (n # ns) s t = Inr False"
  using assms by (auto simp: zip_one_differs)

lemma eq_loop_agree:
  assumes "map_of s n \<in> {None, Some PyNone} \<or> map_of t n \<in> {None, Some PyNone} \<or>
           (\<exists>x y. map_of s n = Some (PyArr x) \<and> map_of t n = Some (PyArr y) \<and>
                  shape x = shape y \<and> list_all2 (\<lambda>u v. \<not> ne u v) (data x) (data y))"
  shows "eq_loop ne (n # ns) s t = eq_loop ne ns s t"
  using assms eq_loop_skip [of s n t ne ns] eq_loop_same [of s n _ t _ ne ns] by blast

lemma eq_loop_arrays_step:
  assumes "\<forall>str. map_of s n \<noteq> Some (PyStr str) \<and> map_of t n \<noteq> Some (PyStr str)"
  shows "eq_loop ne (n # ns) s t = Inr False \<or> eq_loop ne (n # ns) s t = eq_loop ne ns s t"
  using assms by (auto split: option.splits pyval.splits)

lemma eq_loop_cong:
  assumes "\<forall>n \<in> set ns. map_of s n = map_of s' n \<and> map_of t n = map_of t' n"
  shows "eq_loop ne ns s t = eq_loop ne ns s' t'"
  using assms by (induction ns) (auto split: option.splits pyval.splits)

text \<open>
  With a NaN among the elements, two instances holding the same \<open>nodes\<close> array
  compare unequal, as \<open>np.any(s != s2)\<close> is true of an array and itself.
\<close>

lemma nan_nodes_compare_unequal:
  "map_of (attrs (nan_store 0)) ''nodes'' = map_of (attrs (nan_store 1)) ''nodes'' \<and>
   Grid_eq nan_ne nan_store 0 1 = Inr False"
  by (simp add: Grid_eq_def nan_store_def nan_ne_def)

lemma example_attrs:
  "attrs (example_store 0) =
     [(''nodes'', PyArr (NDArray [3, 2] [0, 0, 1, 0, 0, 1])),
      (''faces'', PyArr (NDArray [1, 3] [0, 1, 2])),
      (''name'', PyStr ''Grid_U_0''), (''filename'', PyNone)]"
  "attrs (example_store 1) =
     [(''nodes'', PyArr (NDArray [3, 2] [0, 0, 1, 0, 0, 1])),
      (''faces'', PyArr (NDArray [1, 3] [0, 1, 2])),
      (''name'', PyStr ''Grid_U_1''), (''filename'', PyStr ''mesh.nc'')]"
  "attrs (example_store (Suc 0)) =
     [(''nodes'', PyArr (NDArray [3, 2] [0, 0, 1, 0, 0, 1])),
      (''faces'', PyArr (NDArray [1, 3] [0, 1, 2])),
      (''name'', PyStr ''Grid_U_1''), (''filename'', PyStr ''mesh.nc'')]"
  "attrs (example_store 3) =
     [(''nodes'', PyArr (NDArray [3, 2] [0, 0, 1, 0, 0, 1])),
      (''faces'', PyArr (NDArray [1, 3] [2, 1, 0])),
      (''name'', PyStr ''Grid_U_3''), (''filename'', PyNone)]"
  "attrs (example_store 4) =
     [(''node_lon'', PyArr (NDArray [2, 2] [1, 2, 3, 4])),
      (''node_lat'', PyArr (NDArray [2, 2] [5, 6, 7, 8])),
      (''name'', PyStr ''Grid_S_0'')]"
  "attrs (example_store 5) =
     [(''node_lon'', PyArr (NDArray [1, 3] [100, 101, 102])),
      (''node_lat'', PyArr (NDArray [1, 3] [-5, -6, -7])),
      (''name'', PyStr ''Grid_S_1'')]"
  by (simp_all add: example_store_def example_grids_def)

section \<open>Facts about construction\<close>

text \<open>
  Every result of the attribute extraction holds the key \<open>filename\<close>, so the
  constructor is always called with a keyword.
\<close>

lemma coord_pair_loop_keeps_keys:
  "map_of init_args k \<noteq> None \<Longrightarrow> map_of (coord_pair_loop attr names gf_vars init_args) k \<noteq> None"
  by (induction attr names gf_vars init_args rule: coord_pair_loop.induct)
     (auto simp: AList.update_conv' split: option.splits)

lemma store_composite_keeps_keys:
  "store_composite a init_args = Inr args \<Longrightarrow> map_of init_args k \<noteq> None \<Longrightarrow> map_of args k \<noteq> None"
  by (auto simp: store_composite_def AList.update_conv' split: sum.splits)

lemma composite_loop_keeps_keys:
  "composite_loop names gf_vars init_args = Inr args \<Longrightarrow> map_of init_args k \<noteq> None \<Longrightarrow>
   map_of args k \<noteq> None"
  by (induction names) (auto split: option.splits dest: store_composite_keeps_keys)

lemma topology_loop_keeps_keys:
  "topology_loop topo gf_vars init_args = Inr args \<Longrightarrow> map_of init_args k \<noteq> None \<Longrightarrow>
   map_of args k \<noteq> None"
proof (induction topo gf_vars init_args rule: topology_loop.induct)
  case (1 gf_vars init_args)
  then show ?case by simp
next
  case (2 n v rest gf_vars init_args)
  from "2.prems" obtain a1 a2 where
    s1: "(if n \<in> set node_attrs
          then (case map_of gf_vars v of
                  None \<Rightarrow> Inl (KeyError v)
                | Some var \<Rightarrow> Inr (AList.update n (PyArr (vals var)) init_args))
          else Inr init_args) = Inr a1"
    and s2: "(if n \<in> set composite_node_names
              then (case map_of gf_vars n of
                      None \<Rightarrow> Inl (KeyError n)
                    | Some var \<Rightarrow> store_composite (vals var) a1)
              else Inr a1) = Inr a2"
    and s3: "topology_loop rest gf_vars a2 = Inr args"
    by (auto split: sum.splits)
  have k1: "map_of a1 k \<noteq> None"
    using s1 "2.prems"(2) by (auto simp: AList.update_conv' split: if_splits option.splits)
  have k2: "map_of a2 k \<noteq> None"
    using s2 k1 by (auto split: if_splits option.splits dest: store_composite_keeps_keys)
  show ?case
    using "2.IH" [OF s1 s2 s3 k2] .
qed

lemma faces_loop_keeps_keys:
  "map_of init_args k \<noteq> None \<Longrightarrow> map_of (faces_loop names gf_vars init_args) k \<noteq> None"
  by (induction names gf_vars init_args rule: faces_loop.induct)
     (auto simp: AList.update_conv' split: option.splits)

lemma s_topology_loop_keeps_keys:
  "map_of init_args k \<noteq> None \<Longrightarrow> map_of (s_topology_loop topo gf_vars init_args) k \<noteq> None"
  by (induction topo gf_vars init_args rule: s_topology_loop.induct)
     (auto simp: AList.update_conv' split: option.splits bool.splits)

lemma Grid_init_args_filename:
  assumes "Grid_find_required_grid_attrs filename dataset topo = Inr (init_args, gf_vars)"
  shows "map_of init_args ''filename'' \<noteq> None"
proof (cases topo)
  case None
  let ?a0 = "[(''filename'', filename)]"
  let ?a1 = "coord_pair_loop node_attrs node_coord_names (variables dataset) ?a0"
  have k1: "map_of ?a1 ''filename'' \<noteq> None"
    by (rule coord_pair_loop_keeps_keys) simp
  from assms None have
    "(if node_attrs ! 0 \<notin> fst ` set ?a1
      then composite_loop composite_node_names (variables dataset) ?a1
      else Inr ?a1) = Inr init_args"
    by (auto simp: Grid_find_required_grid_attrs_def Let_def split: sum.splits if_splits)
  then show ?thesis
    using k1 by (auto split: if_splits dest: composite_loop_keeps_keys)
next
  case (Some t)
  from assms Some have "topology_loop t (variables dataset) [(''filename'', filename)] = Inr init_args"
    by (auto simp: Grid_find_required_grid_attrs_def Let_def split: sum.splits)
  then show ?thesis
    by (rule topology_loop_keeps_keys) simp
qed

lemma Grid_U_init_args_filename:
  assumes "Grid_U_find_required_grid_attrs filename dataset topo = Inr (init_args, gf_vars)"
  shows "map_of init_args ''filename'' \<noteq> None"
proof -
  from assms obtain a0 g0 where
    base: "Grid_find_required_grid_attrs filename dataset topo = Inr (a0, g0)"
    by (auto simp: Grid_U_find_required_grid_attrs_def split: sum.splits)
  let ?names = "case topo of
                  Some t \<Rightarrow> map (map_of t) face_attrs
                | None \<Rightarrow> map Some [''faces'', ''tris'', ''nv'', ''ele'']"
  let ?a1 = "faces_loop ?names g0 a0"
  have k1: "map_of ?a1 ''filename'' \<noteq> None"
    using base by (intro faces_loop_keeps_keys Grid_init_args_filename)
  have "init_args = ?a1 \<or> (\<exists>f. init_args = AList.update (face_attrs ! 0) (PyArr f) ?a1)"
    using assms unfolding Grid_U_find_required_grid_attrs_def base
    by (auto simp: Let_def split: option.splits pyval.splits list.splits if_splits)
  then show ?thesis
    using k1 by (auto simp: AList.update_conv')
qed

lemma Grid_S_init_args_filename:
  assumes "Grid_S_find_required_grid_attrs filename dataset topo = Inr (init_args, gf_vars)"
  shows "map_of init_args ''filename'' \<noteq> None"
proof -
  from assms obtain a0 g0 where
    base: "Grid_find_required_grid_attrs filename dataset topo = Inr (a0, g0)"
    by (auto simp: Grid_S_find_required_grid_attrs_def split: sum.splits)
  have k0: "map_of a0 ''filename'' \<noteq> None"
    using base by (rule Grid_init_args_filename)
  show ?thesis
  proof (cases topo)
    case None
    then have "init_args =
        coord_pair_loop edge2_attrs edge2_coord_names g0
          (coord_pair_loop edge1_attrs edge1_coord_names g0
            (coord_pair_loop center_attrs center_coord_names g0 a0))"
      using assms unfolding Grid_S_find_required_grid_attrs_def base by auto
    then show ?thesis
      using k0 by (simp add: coord_pair_loop_keeps_keys)
  next
    case (Some t)
    then have "init_args = s_topology_loop t g0 a0"
      using assms unfolding Grid_S_find_required_grid_attrs_def base by auto
    then show ?thesis
      using k0 by (simp add: s_topology_loop_keeps_keys)
  qed
qed

text \<open>
  The allocation in \<open>Grid.__new__\<close> raises TypeError for every call with a keyword,
  so \<open>from_netCDF\<close> returns no instance.
\<close>

lemma Grid_call_with_keywords:
  assumes "init_args \<noteq> []"
  shows "Grid_call base_init def_count cls init_args =
           Inl (TypeError ''object.__new__() takes exactly one argument (the type to instantiate)'')"
  using assms by (simp add: Grid_call_def Grid_new_def object_new_def)

lemma Grid_from_netCDF_raises:
  "\<exists>e. Grid_from_netCDF get_dataset base_init def_count filename dataset grid_type grid_topology = Inl e"
proof (cases "Grid_from_netCDF get_dataset base_init def_count filename dataset grid_type grid_topology")
  case (Inl e)
  then show ?thesis by blast
next
  case (Inr r)
  then obtain cls ds init_args gf_vars where
    args: "(case cls of
              Grid_U \<Rightarrow> Grid_U_find_required_grid_attrs filename ds grid_topology
            | Grid_S \<Rightarrow> Grid_S_find_required_grid_attrs filename ds grid_topology) =
           Inr (init_args, gf_vars)"
    and call: "Grid_call base_init def_count (Subclass cls) init_args = Inr r"
    by (auto simp: Grid_from_netCDF_def split: sum.splits option.splits if_splits)
  have "map_of init_args ''filename'' \<noteq> None"
    using args by (cases cls) (auto dest: Grid_U_init_args_filename Grid_S_init_args_filename)
  then have "init_args \<noteq> []" by auto
  then show ?thesis using call by (simp add: Grid_call_with_keywords)
qed

section \<open>Claims\<close>

text \<open>
  Claim C1. Without a \<open>grid_topology\<close> mapping, when the node coordinates resolve and
  the first connectivity variable present among \<open>faces\<close>, \<open>tris\<close>, \<open>nv\<close>, \<open>ele\<close> has
  shape \<open>(3, N)\<close>, unstructured extraction stores under \<open>faces\<close> an array of shape
  \<open>(N, 3)\<close> with \<open>resolved[i][j] = source[j][i] - 1\<close> for all \<open>i < N\<close>, \<open>j < 3\<close>; a
  connectivity array whose first dimension is not 3 is stored unchanged.
\<close>

theorem faces_triangle_major_converted:
  assumes base: "Grid_find_required_grid_attrs filename dataset None = Inr (init_args, gf_vars)"
    and found: "List.find (\<lambda>n. n \<in> fst ` set (variables dataset))
                  [''faces'', ''tris'', ''nv'', ''ele''] = Some name"
    and var: "map_of (variables dataset) name = Some var"
  shows "(\<forall>N. shape (vals var) = [3, N] \<longrightarrow>
            (\<exists>args r.
               Grid_U_find_required_grid_attrs filename dataset None = Inr (args, variables dataset) \<and>
               map_of args ''faces'' = Some (PyArr r) \<and> shape r = [N, 3] \<and>
               (\<forall>i<N. \<forall>j<3. \<exists>x. item (vals var) [j, i] = Inr x \<and> item r [i, j] = Inr (x - 1)))) \<and>
         (\<forall>d rest. shape (vals var) = d # rest \<and> d \<noteq> 3 \<longrightarrow>
            (\<exists>args.
               Grid_U_find_required_grid_attrs filename dataset None = Inr (args, variables dataset) \<and>
               map_of args ''faces'' = Some (PyArr (vals var))))"
proof (intro conjI allI impI)
  fix N assume sh: "shape (vals var) = [3, N]"
  let ?r = "to_zero_based (vals var)"
  let ?args = "AList.update ''faces'' (PyArr ?r) init_args"
  have res: "Grid_U_find_required_grid_attrs filename dataset None = Inr (?args, variables dataset)"
    using Grid_U_faces_found [OF base found var] sh by simp
  have elems: "\<forall>i<N. \<forall>j<3. \<exists>x. item (vals var) [j, i] = Inr x \<and> item ?r [i, j] = Inr (x - 1)"
    using sh by (simp add: item_2d item_to_zero_based_2d)
  have "map_of ?args ''faces'' = Some (PyArr ?r)" by (simp add: AList.update_conv')
  moreover have "shape ?r = [N, 3]" using sh by (simp add: shape_to_zero_based)
  ultimately show "\<exists>args r.
      Grid_U_find_required_grid_attrs filename dataset None = Inr (args, variables dataset) \<and>
      map_of args ''faces'' = Some (PyArr r) \<and> shape r = [N, 3] \<and>
      (\<forall>i<N. \<forall>j<3. \<exists>x. item (vals var) [j, i] = Inr x \<and> item r [i, j] = Inr (x - 1))"
    using res elems by blast
next
  fix d rest assume sh: "shape (vals var) = d # rest \<and> d \<noteq> 3"
  let ?args = "AList.update ''faces'' (PyArr (vals var)) init_args"
  have "Grid_U_find_required_grid_attrs filename dataset None = Inr (?args, variables dataset)"
    using Grid_U_faces_found [OF base found var] sh by simp
  moreover have "map_of ?args ''faces'' = Some (PyArr (vals var))" by (simp add: AList.update_conv')
  ultimately show "\<exists>args.
      Grid_U_find_required_grid_attrs filename dataset None = Inr (args, variables dataset) \<and>
      map_of args ''faces'' = Some (PyArr (vals var))"
    by blast
qed


text \<open>
  The theorem at \<open>triangle_dataset\<close> (shape \<open>(3, 2)\<close>, converted) and at
  \<open>face_major_dataset\<close> (shape \<open>(2, 3)\<close>, unchanged).
\<close>

theorem faces_triangle_major_converted_witness:
  "(\<exists>args r.
      Grid_U_find_required_grid_attrs PyNone triangle_dataset None =
        Inr (args, variables triangle_dataset) \<and>
      map_of args ''faces'' = Some (PyArr r) \<and> shape r = [2, 3] \<and>
      (\<forall>i<2. \<forall>j<3. \<exists>x. item (NDArray [3, 2] [1, 2, 2, 3, 3, 4 :: int]) [j, i] = Inr x \<and>
                        item r [i, j] = Inr (x - 1))) \<and>
   (\<exists>args.
      Grid_U_find_required_grid_attrs PyNone face_major_dataset None =
        Inr (args, variables face_major_dataset) \<and>
      map_of args ''faces'' = Some (PyArr (NDArray [2, 3] [0, 1, 2, 1, 2, 3 :: int])))"
proof -
  have base1: "Grid_find_required_grid_attrs PyNone triangle_dataset None =
      Inr ([(''filename'', PyNone), (''node_lon'', PyArr (NDArray [4] [10, 11, 12, 13])),
            (''node_lat'', PyArr (NDArray [4] [50, 51, 52, 53]))], variables triangle_dataset)"
    by code_simp
  have found1: "List.find (\<lambda>n. n \<in> fst ` set (variables triangle_dataset))
      [''faces'', ''tris'', ''nv'', ''ele''] = Some ''nv''"
    by (simp add: triangle_dataset_def)
  have var1: "map_of (variables triangle_dataset) ''nv'' =
      Some (Variable [] (NDArray [3, 2] [1, 2, 2, 3, 3, 4]))"
    by (simp add: triangle_dataset_def)
  have base2: "Grid_find_required_grid_attrs PyNone face_major_dataset None =
      Inr ([(''filename'', PyNone), (''node_lon'', PyArr (NDArray [4] [10, 11, 12, 13])),
            (''node_lat'', PyArr (NDArray [4] [50, 51, 52, 53]))], variables face_major_dataset)"
    by code_simp
  have found2: "List.find (\<lambda>n. n \<in> fst ` set (variables face_major_dataset))
      [''faces'', ''tris'', ''nv'', ''ele''] = Some ''faces''"
    by (simp add: face_major_dataset_def)
  have var2: "map_of (variables face_major_dataset) ''faces'' =
      Some (Variable [] (NDArray [2, 3] [0, 1, 2, 1, 2, 3]))"
    by (simp add: face_major_dataset_def)
  show ?thesis
    using faces_triangle_major_converted [OF base1 found1 var1]
      faces_triangle_major_converted [OF base2 found2 var2]
    by simp
qed

text \<open>
  Claim C3. An explicit \<open>grid_type\<close> string decides the grid kind by its lowercase
  form alone: Structured for sgrid, pygrid_s, staggered, curvilinear, roms;
  Unstructured for ugrid, pygrid_u, triangular, unstructured; otherwise the
  unsupported-grid-type ValueError. Neither the dataset nor the \<open>grid_topology\<close>
  mapping has any influence.
\<close>

theorem explicit_grid_type_resolution:
  "Grid_get_grid_type dataset grid_topology (Some gt) =
     (if lower gt \<in> set [''sgrid'', ''pygrid_s'', ''staggered'', ''curvilinear'', ''roms'']
      then Inr Grid_S
      else if lower gt \<in> set [''ugrid'', ''pygrid_u'', ''triangular'', ''unstructured'']
      then Inr Grid_U
      else Inl (ValueError ''Specified grid_type not recognized/supported''))"
  by (simp add: Grid_get_grid_type_def sgrid_names_def ugrid_names_def)

text \<open>
  The theorem at mixed-case aliases, among them \<open>ROMS\<close> on a dataset that holds a
  topology variable, and at an unknown name.
\<close>

theorem explicit_grid_type_resolution_witness:
  "Grid_get_grid_type topology_dataset None (Some ''ROMS'') = Inr Grid_S \<and>
   Grid_get_grid_type topology_dataset (Some [(''faces'', ''nv'')]) (Some ''Curvilinear'') = Inr Grid_S \<and>
   Grid_get_grid_type psi_dataset None (Some ''Triangular'') = Inr Grid_U \<and>
   Grid_get_grid_type psi_dataset None (Some ''mesh'') =
     Inl (ValueError ''Specified grid_type not recognized/supported'')"
proof -
  have l: "lower ''ROMS'' = ''roms''" "lower ''Curvilinear'' = ''curvilinear''"
    "lower ''Triangular'' = ''triangular''" "lower ''mesh'' = ''mesh''"
    by code_simp+
  show ?thesis
    using explicit_grid_type_resolution [of topology_dataset None "''ROMS''"]
      explicit_grid_type_resolution [of topology_dataset "Some [(''faces'', ''nv'')]" "''Curvilinear''"]
      explicit_grid_type_resolution [of psi_dataset None "''Triangular''"]
      explicit_grid_type_resolution [of psi_dataset None "''mesh''"]
    by (simp add: l)
qed

text \<open>
  Claim C4. With no explicit \<open>grid_type\<close> and a \<open>grid_topology\<close> mapping, the kind is
  Unstructured exactly when the mapping has a key \<open>faces\<close> or its \<open>grid_type\<close> entry
  is, in lowercase, one of ugrid, pygrid_u, triangular, unstructured, and Structured
  otherwise; the result is the same for any two datasets.
\<close>

theorem topology_mapping_resolution:
  "Grid_get_grid_type dataset (Some topo) None =
     Inr (if ''faces'' \<in> fst ` set topo \<or>
             (\<exists>t. map_of topo ''grid_type'' = Some t \<and>
                  lower t \<in> set [''ugrid'', ''pygrid_u'', ''triangular'', ''unstructured''])
          then Grid_U else Grid_S) \<and>
   Grid_get_grid_type dataset (Some topo) None = Grid_get_grid_type dataset' (Some topo) None"
proof -
  have "lower ''notype'' = ''notype''" by code_simp
  then show ?thesis
    by (auto simp add: Grid_get_grid_type_def ugrid_names_def split: option.splits)
qed

text \<open>The theorem at four mappings and two datasets.\<close>

theorem topology_mapping_resolution_witness:
  "Grid_get_grid_type triangle_dataset (Some [(''node_lon'', ''lon''), (''faces'', ''nv'')]) None = Inr Grid_U \<and>
   Grid_get_grid_type triangle_dataset (Some [(''grid_type'', ''UGrid'')]) None = Inr Grid_U \<and>
   Grid_get_grid_type triangle_dataset (Some [(''node_lon'', ''lon''), (''node_lat'', ''lat'')]) None = Inr Grid_S \<and>
   Grid_get_grid_type triangle_dataset (Some [(''grid_type'', ''roms'')]) None = Inr Grid_S \<and>
   Grid_get_grid_type psi_dataset (Some [(''grid_type'', ''UGrid'')]) None = Inr Grid_U"
proof -
  have l: "lower ''UGrid'' = ''ugrid''" "lower ''roms'' = ''roms''"
    by code_simp+
  show ?thesis
    using topology_mapping_resolution [of triangle_dataset "[(''node_lon'', ''lon''), (''faces'', ''nv'')]" psi_dataset]
      topology_mapping_resolution [of triangle_dataset "[(''grid_type'', ''UGrid'')]" psi_dataset]
      topology_mapping_resolution [of triangle_dataset "[(''node_lon'', ''lon''), (''node_lat'', ''lat'')]" psi_dataset]
      topology_mapping_resolution [of triangle_dataset "[(''grid_type'', ''roms'')]" psi_dataset]
      topology_mapping_resolution [of psi_dataset "[(''grid_type'', ''UGrid'')]" triangle_dataset]
    by (simp add: l)
qed

text \<open>
  Claim C5. Without a \<open>grid_topology\<close> mapping, node coordinate resolution binds
  \<open>node_lon\<close> and \<open>node_lat\<close> to the arrays of the first pair among
  \<open>node_lon/node_lat\<close>, \<open>lon/lat\<close>, \<open>lon_psi/lat_psi\<close> whose two names are both
  variables of the dataset, unchanged. When no pair is present and the first
  composite name present among \<open>nodes\<close>, \<open>node\<close> holds an array of shape \<open>(N, 2)\<close>,
  its column 0 becomes \<open>node_lon\<close> and its column 1 \<open>node_lat\<close>.
\<close>

theorem node_coordinates_by_convention:
  "(\<forall>n1 n2 v1 v2.
      List.find (\<lambda>(n1, n2). n1 \<in> fst ` set (variables dataset) \<and> n2 \<in> fst ` set (variables dataset))
        [(''node_lon'', ''node_lat''), (''lon'', ''lat''), (''lon_psi'', ''lat_psi'')] = Some (n1, n2) \<and>
      map_of (variables dataset) n1 = Some v1 \<and> map_of (variables dataset) n2 = Some v2 \<longrightarrow>
      Grid_find_required_grid_attrs filename dataset None =
        Inr ([(''filename'', filename), (''node_lon'', PyArr (vals v1)), (''node_lat'', PyArr (vals v2))],
             variables dataset)) \<and>
   (\<forall>n var N.
      List.find (\<lambda>(n1, n2). n1 \<in> fst ` set (variables dataset) \<and> n2 \<in> fst ` set (variables dataset))
        [(''node_lon'', ''node_lat''), (''lon'', ''lat''), (''lon_psi'', ''lat_psi'')] = None \<and>
      List.find (\<lambda>n. n \<in> fst ` set (variables dataset)) [''nodes'', ''node''] = Some n \<and>
      map_of (variables dataset) n = Some var \<and> shape (vals var) = [N, 2] \<longrightarrow>
      (\<exists>lon lat.
         Grid_find_required_grid_attrs filename dataset None =
           Inr ([(''filename'', filename), (''node_lon'', PyArr lon), (''node_lat'', PyArr lat)],
                variables dataset) \<and>
         shape lon = [N] \<and> shape lat = [N] \<and>
         (\<forall>i<N. item lon [i] = item (vals var) [i, 0] \<and> item lat [i] = item (vals var) [i, 1])))"
proof (intro conjI allI impI)
  fix n1 n2 v1 v2
  assume h: "List.find (\<lambda>(n1, n2). n1 \<in> fst ` set (variables dataset) \<and> n2 \<in> fst ` set (variables dataset))
        [(''node_lon'', ''node_lat''), (''lon'', ''lat''), (''lon_psi'', ''lat_psi'')] = Some (n1, n2) \<and>
      map_of (variables dataset) n1 = Some v1 \<and> map_of (variables dataset) n2 = Some v2"
  have loop: "coord_pair_loop node_attrs node_coord_names (variables dataset) [(''filename'', filename)] =
      [(''filename'', filename), (''node_lon'', PyArr (vals v1)), (''node_lat'', PyArr (vals v2))]"
    unfolding coord_pair_loop_find using h by (simp add: node_coord_names_def node_attrs_def)
  show "Grid_find_required_grid_attrs filename dataset None =
        Inr ([(''filename'', filename), (''node_lon'', PyArr (vals v1)), (''node_lat'', PyArr (vals v2))],
             variables dataset)"
    by (simp add: Grid_find_required_grid_attrs_def Let_def loop [unfolded node_attrs_def] node_attrs_def)
next
  fix n var N
  assume h: "List.find (\<lambda>(n1, n2). n1 \<in> fst ` set (variables dataset) \<and> n2 \<in> fst ` set (variables dataset))
        [(''node_lon'', ''node_lat''), (''lon'', ''lat''), (''lon_psi'', ''lat_psi'')] = None \<and>
      List.find (\<lambda>n. n \<in> fst ` set (variables dataset)) [''nodes'', ''node''] = Some n \<and>
      map_of (variables dataset) n = Some var \<and> shape (vals var) = [N, 2]"
  let ?lon = "NDArray [N] (map (\<lambda>i. data (vals var) ! (i * 2)) [0..<N])"
  let ?lat = "NDArray [N] (map (\<lambda>i. data (vals var) ! (i * 2 + 1)) [0..<N])"
  have loop: "coord_pair_loop node_attrs node_coord_names (variables dataset) [(''filename'', filename)] =
      [(''filename'', filename)]"
    unfolding coord_pair_loop_find using h by (simp add: node_coord_names_def)
  have comp: "composite_loop composite_node_names (variables dataset) [(''filename'', filename)] =
      Inr [(''filename'', filename), (''node_lon'', PyArr ?lon), (''node_lat'', PyArr ?lat)]"
    unfolding composite_loop_find using h by (simp add: composite_node_names_def store_composite_N2)
  have res: "Grid_find_required_grid_attrs filename dataset None =
           Inr ([(''filename'', filename), (''node_lon'', PyArr ?lon), (''node_lat'', PyArr ?lat)],
                variables dataset)"
    by (simp add: Grid_find_required_grid_attrs_def Let_def loop [unfolded node_attrs_def] comp node_attrs_def)
  have el: "\<forall>i<N. item ?lon [i] = item (vals var) [i, 0] \<and> item ?lat [i] = item (vals var) [i, 1]"
    using h by (simp add: item_def)
  show "\<exists>lon lat.
         Grid_find_required_grid_attrs filename dataset None =
           Inr ([(''filename'', filename), (''node_lon'', PyArr lon), (''node_lat'', PyArr lat)],
                variables dataset) \<and>
         shape lon = [N] \<and> shape lat = [N] \<and>
         (\<forall>i<N. item lon [i] = item (vals var) [i, 0] \<and> item lat [i] = item (vals var) [i, 1])"
    using res el by (intro exI [of _ ?lon] exI [of _ ?lat]) simp
qed

text \<open>
  The theorem at \<open>psi_dataset\<close> (the third pair) and at \<open>composite_dataset\<close> (the
  composite name \<open>node\<close>).
\<close>

theorem node_coordinates_by_convention_witness:
  "Grid_find_required_grid_attrs PyNone psi_dataset None =
     Inr ([(''filename'', PyNone), (''node_lon'', PyArr (NDArray [2, 2] [1, 2, 3, 4])),
           (''node_lat'', PyArr (NDArray [2, 2] [5, 6, 7, 8]))],
          variables psi_dataset) \<and>
   (\<exists>lon lat.
      Grid_find_required_grid_attrs PyNone composite_dataset None =
        Inr ([(''filename'', PyNone), (''node_lon'', PyArr lon), (''node_lat'', PyArr lat)],
             variables composite_dataset) \<and>
      shape lon = [3] \<and> shape lat = [3] \<and>
      (\<forall>i<3. item lon [i] = item (NDArray [3, 2] [10, 50, 11, 51, 12, 52 :: int]) [i, 0] \<and>
              item lat [i] = item (NDArray [3, 2] [10, 50, 11, 51, 12, 52 :: int]) [i, 1]))"
proof -
  have pair: "List.find (\<lambda>(n1, n2). n1 \<in> fst ` set (variables psi_dataset) \<and> n2 \<in> fst ` set (variables psi_dataset))
        [(''node_lon'', ''node_lat''), (''lon'', ''lat''), (''lon_psi'', ''lat_psi'')] = Some (''lon_psi'', ''lat_psi'') \<and>
      map_of (variables psi_dataset) ''lon_psi'' = Some (Variable [] (NDArray [2, 2] [1, 2, 3, 4])) \<and>
      map_of (variables psi_dataset) ''lat_psi'' = Some (Variable [] (NDArray [2, 2] [5, 6, 7, 8]))"
    by (simp add: psi_dataset_def)
  have comp: "List.find (\<lambda>(n1, n2). n1 \<in> fst ` set (variables composite_dataset) \<and> n2 \<in> fst ` set (variables composite_dataset))
        [(''node_lon'', ''node_lat''), (''lon'', ''lat''), (''lon_psi'', ''lat_psi'')] = None \<and>
      List.find (\<lambda>n. n \<in> fst ` set (variables composite_dataset)) [''nodes'', ''node''] = Some ''node'' \<and>
      map_of (variables composite_dataset) ''node'' = Some (Variable [] (NDArray [3, 2] [10, 50, 11, 51, 12, 52])) \<and>
      shape (vals (Variable [] (NDArray [3, 2] [10, 50, 11, 51, 12, 52 :: int]))) = [3, 2]"
    by (simp add: composite_dataset_def)
  show ?thesis
    using node_coordinates_by_convention [of psi_dataset PyNone, THEN conjunct1, rule_format, OF pair]
      node_coordinates_by_convention [of composite_dataset PyNone, THEN conjunct2, rule_format, OF comp]
    by simp
qed

text \<open>
  Claim C6. Attribute extraction is to fail with the node-coordinates-not-found
  error whenever no node coordinates are resolved, with or without a
  \<open>grid_topology\<close> mapping. Without a mapping it does
  (\<open>no_node_coordinates_without_topology\<close>). With a mapping that names no node
  coordinates it returns \<open>init_args\<close> without \<open>node_lon\<close> and \<open>node_lat\<close>: the base
  extraction and the structured one on a mapping that only gives the grid type,
  the unstructured one on a mapping that only names the faces.
\<close>

theorem topology_mapping_without_node_coordinates:
  "Grid_find_required_grid_attrs PyNone psi_dataset (Some [(''grid_type'', ''roms'')]) =
     Inr ([(''filename'', PyNone)], variables psi_dataset) \<and>
   Grid_S_find_required_grid_attrs PyNone psi_dataset (Some [(''grid_type'', ''roms'')]) =
     Inr ([(''filename'', PyNone)], variables psi_dataset) \<and>
   Grid_U_find_required_grid_attrs PyNone triangle_dataset (Some [(''faces'', ''nv'')]) =
     Inr ([(''filename'', PyNone), (''faces'', PyArr (NDArray [2, 3] [0, 1, 2, 1, 2, 3]))],
          variables triangle_dataset)"
  by code_simp

text \<open>
  Claim C7. An entry of \<open>grid_topology\<close> whose key is a composite node name is to
  split the array of the dataset variable the entry maps to. The code reads
  \<open>gf_vars[n]\<close>, the variable named by the key: with the mapping
  \<open>{'nodes': 'xy'}\<close> it raises KeyError on a dataset that holds only \<open>xy\<close>, and on
  a dataset that holds both it splits \<open>nodes\<close>, not \<open>xy\<close>. (Entries for \<open>node_lon\<close>
  and \<open>node_lat\<close> do read the mapped variable: \<open>topology_node_entries\<close>.)
\<close>

theorem composite_topology_entry_reads_key_name:
  "Grid_find_required_grid_attrs PyNone renamed_nodes_dataset (Some [(''nodes'', ''xy'')]) =
     Inl (KeyError ''nodes'') \<and>
   Grid_find_required_grid_attrs PyNone two_nodes_dataset (Some [(''nodes'', ''xy'')]) =
     Inr ([(''filename'', PyNone), (''node_lon'', PyArr (NDArray [2] [1, 3])),
           (''node_lat'', PyArr (NDArray [2] [2, 4]))],
          variables two_nodes_dataset)"
  by code_simp

text \<open>
  Claim C2. A variable whose \<open>cf_role\<close> contains "topology" is to decide the grid
  kind. \<open>_find_topology_var\<close> iterates over the names of the variables, and a
  name has no \<open>cf_role\<close>, so it finds no topology variable in any dataset
  (\<open>find_topology_var_None\<close>). On \<open>topology_dataset\<close>, whose topology variable has
  \<open>node_coordinates\<close> and no \<open>node_dimensions\<close>, resolution falls through to the
  extraction attempts and answers Structured.
\<close>

theorem topology_variable_not_detected:
  "Grid_find_topology_var topology_dataset = Inr None \<and>
   Grid_get_grid_type topology_dataset None None = Inr Grid_S"
  by code_simp

text \<open>
  Claim C8, as stated, at grids 0 and 2 of \<open>example_store\<close>, with integer elements:
  their \<open>faces\<close> arrays are identical, their \<open>nodes\<close> arrays differ, and they
  compare unequal.
\<close>

theorem identical_faces_unequal_grids:
  "map_of (attrs (example_store 0)) ''faces'' = Some (PyArr (NDArray [1, 3] [0, 1, 2])) \<and>
   map_of (attrs (example_store 2)) ''faces'' = Some (PyArr (NDArray [1, 3] [0, 1, 2])) \<and>
   Grid_eq (\<noteq>) example_store 0 2 = Inr False"
  by code_simp

text \<open>
  Claim C8, amended. An instance equals itself. Two instances compare equal
  whenever, for \<open>nodes\<close> and for \<open>faces\<close>, one of them lacks the attribute or has it
  \<open>None\<close>, or both hold arrays of the same shape whose elements are pairwise not
  different under the dtype's \<open>!=\<close> (so none of them is NaN); no other attribute is
  looked at. Two instances that both hold an array under \<open>faces\<close> (or under
  \<open>nodes\<close>), the two arrays differing in shape or, under the dtype's \<open>!=\<close>, at some
  position, compare unequal, given that \<open>nodes\<close> is never a string.
\<close>

theorem grid_equality_nodes_and_faces:
  "Grid_eq ne store a a = Inr True \<and>
   ((\<forall>n \<in> {''nodes'', ''faces''}.
       map_of (attrs (store a)) n \<in> {None, Some PyNone} \<or>
       map_of (attrs (store b)) n \<in> {None, Some PyNone} \<or>
       (\<exists>x y. map_of (attrs (store a)) n = Some (PyArr x) \<and>
              map_of (attrs (store b)) n = Some (PyArr y) \<and>
              shape x = shape y \<and> list_all2 (\<lambda>u v. \<not> ne u v) (data x) (data y))) \<longrightarrow>
    Grid_eq ne store a b = Inr True) \<and>
   (\<forall>n \<in> {''nodes'', ''faces''}. \<forall>x y.
      a \<noteq> b \<and>
      map_of (attrs (store a)) n = Some (PyArr x) \<and> map_of (attrs (store b)) n = Some (PyArr y) \<and>
      (shape x \<noteq> shape y \<or>
       (\<exists>i. i < length (data x) \<and> i < length (data y) \<and> ne (data x ! i) (data y ! i))) \<and>
      (\<forall>str. map_of (attrs (store a)) ''nodes'' \<noteq> Some (PyStr str) \<and>
             map_of (attrs (store b)) ''nodes'' \<noteq> Some (PyStr str)) \<longrightarrow>
      Grid_eq ne store a b = Inr False)"
proof (intro conjI impI ballI allI)
  show "Grid_eq ne store a a = Inr True" by (simp add: Grid_eq_def)
next
  assume h: "\<forall>n \<in> {''nodes'', ''faces''}.
       map_of (attrs (store a)) n \<in> {None, Some PyNone} \<or>
       map_of (attrs (store b)) n \<in> {None, Some PyNone} \<or>
       (\<exists>x y. map_of (attrs (store a)) n = Some (PyArr x) \<and>
              map_of (attrs (store b)) n = Some (PyArr y) \<and>
              shape x = shape y \<and> list_all2 (\<lambda>u v. \<not> ne u v) (data x) (data y))"
  have "eq_loop ne [''nodes'', ''faces''] (attrs (store a)) (attrs (store b)) =
        eq_loop ne [''faces''] (attrs (store a)) (attrs (store b))"
    using h by (intro eq_loop_agree) simp
  also have "\<dots> = eq_loop ne [] (attrs (store a)) (attrs (store b))"
    using h by (intro eq_loop_agree) simp
  finally show "Grid_eq ne store a b = Inr True" by (simp add: Grid_eq_def)
next
  fix n x y
  assume n: "n \<in> {''nodes'', ''faces''}"
    and h: "a \<noteq> b \<and>
      map_of (attrs (store a)) n = Some (PyArr x) \<and> map_of (attrs (store b)) n = Some (PyArr y) \<and>
      (shape x \<noteq> shape y \<or>
       (\<exists>i. i < length (data x) \<and> i < length (data y) \<and> ne (data x ! i) (data y ! i))) \<and>
      (\<forall>str. map_of (attrs (store a)) ''nodes'' \<noteq> Some (PyStr str) \<and>
             map_of (attrs (store b)) ''nodes'' \<noteq> Some (PyStr str))"
  have step: "eq_loop ne (n # ns) (attrs (store a)) (attrs (store b)) = Inr False" for ns
    using h by (intro eq_loop_differ [of _ _ x _ y]) simp_all
  have "eq_loop ne [''nodes'', ''faces''] (attrs (store a)) (attrs (store b)) = Inr False"
  proof (cases "n = ''nodes''")
    case True
    then show ?thesis using step by simp
  next
    case False
    then have f: "n = ''faces''" using n by simp
    have "eq_loop ne [''nodes'', ''faces''] (attrs (store a)) (attrs (store b)) = Inr False \<or>
          eq_loop ne [''nodes'', ''faces''] (attrs (store a)) (attrs (store b)) =
          eq_loop ne [''faces''] (attrs (store a)) (attrs (store b))"
      using h by (intro eq_loop_arrays_step) simp
    then show ?thesis using step [of "[]"] f by auto
  qed
  then show "Grid_eq ne store a b = Inr False" using h by (simp add: Grid_eq_def)
qed

text \<open>
  The theorem in \<open>example_store\<close>, with integer elements: grid 0 with itself, grids
  0 and 1 (same nodes and faces, other name and filename), grids 0 and 3 (other
  faces).
\<close>

theorem grid_equality_nodes_and_faces_witness:
  "Grid_eq (\<noteq>) example_store 0 0 = Inr True \<and>
   map_of (attrs (example_store 0)) ''name'' \<noteq> map_of (attrs (example_store 1)) ''name'' \<and>
   Grid_eq (\<noteq>) example_store 0 1 = Inr True \<and>
   Grid_eq (\<noteq>) example_store 0 3 = Inr False"
proof -
  have same: "Grid_eq (\<noteq>) example_store 0 0 = Inr True"
    using grid_equality_nodes_and_faces [of "(\<noteq>)" example_store 0 1] by simp
  have equal: "Grid_eq (\<noteq>) example_store 0 1 = Inr True"
    using grid_equality_nodes_and_faces [of "(\<noteq>)" example_store 0 1] by (simp add: example_attrs)
  have differ: "\<exists>i. i < length (data (NDArray [1, 3] [0, 1, 2 :: int])) \<and>
      i < length (data (NDArray [1, 3] [2, 1, 0 :: int])) \<and>
      data (NDArray [1, 3] [0, 1, 2 :: int]) ! i \<noteq> data (NDArray [1, 3] [2, 1, 0 :: int]) ! i"
    by (intro exI [of _ 0]) simp
  have faces: "''faces'' \<in> {''nodes'', ''faces''}"
    by simp
  have both: "(0 :: nat) \<noteq> 3 \<and>
      map_of (attrs (example_store 0)) ''faces'' = Some (PyArr (NDArray [1, 3] [0, 1, 2])) \<and>
      map_of (attrs (example_store 3)) ''faces'' = Some (PyArr (NDArray [1, 3] [2, 1, 0])) \<and>
      (shape (NDArray [1, 3] [0, 1, 2 :: int]) \<noteq> shape (NDArray [1, 3] [2, 1, 0 :: int]) \<or>
       (\<exists>i. i < length (data (NDArray [1, 3] [0, 1, 2 :: int])) \<and>
            i < length (data (NDArray [1, 3] [2, 1, 0 :: int])) \<and>
            data (NDArray [1, 3] [0, 1, 2 :: int]) ! i \<noteq> data (NDArray [1, 3] [2, 1, 0 :: int]) ! i)) \<and>
      (\<forall>str. map_of (attrs (example_store 0)) ''nodes'' \<noteq> Some (PyStr str) \<and>
             map_of (attrs (example_store 3)) ''nodes'' \<noteq> Some (PyStr str))"
    using differ by (simp add: example_attrs)
  have unequal: "Grid_eq (\<noteq>) example_store 0 3 = Inr False"
    using grid_equality_nodes_and_faces [of "(\<noteq>)" example_store 0 3, THEN conjunct2, THEN conjunct2,
        rule_format, OF faces both] .
  show ?thesis
    using same equal unequal by (simp add: example_attrs)
qed

text \<open>
  Claim C10. When, for \<open>nodes\<close> and for \<open>faces\<close>, at least one of two instances
  lacks the attribute or has it \<open>None\<close>, they compare equal. The comparison is a
  function of the two references being the same or not and of the \<open>nodes\<close> and
  \<open>faces\<close> attributes only, so \<open>node_lon\<close> and \<open>node_lat\<close> play no part. Both hold
  for every element comparison.
\<close>

theorem grid_equality_ignores_other_attributes:
  "((\<forall>n \<in> {''nodes'', ''faces''}.
       map_of (attrs (store a)) n \<in> {None, Some PyNone} \<or>
       map_of (attrs (store b)) n \<in> {None, Some PyNone}) \<longrightarrow>
    Grid_eq ne store a b = Inr True) \<and>
   ((a = b \<longleftrightarrow> a' = b') \<and>
    (\<forall>n \<in> {''nodes'', ''faces''}.
       map_of (attrs (store a)) n = map_of (attrs (store' a')) n \<and>
       map_of (attrs (store b)) n = map_of (attrs (store' b')) n) \<longrightarrow>
    Grid_eq ne store a b = Grid_eq ne store' a' b')"
proof (intro conjI impI)
  assume h: "\<forall>n \<in> {''nodes'', ''faces''}.
       map_of (attrs (store a)) n \<in> {None, Some PyNone} \<or>
       map_of (attrs (store b)) n \<in> {None, Some PyNone}"
  have "eq_loop ne [''nodes'', ''faces''] (attrs (store a)) (attrs (store b)) =
        eq_loop ne [''faces''] (attrs (store a)) (attrs (store b))"
    using h by (intro eq_loop_skip) simp
  also have "\<dots> = eq_loop ne [] (attrs (store a)) (attrs (store b))"
    using h by (intro eq_loop_skip) simp
  finally show "Grid_eq ne store a b = Inr True" by (simp add: Grid_eq_def)
next
  assume h: "(a = b \<longleftrightarrow> a' = b') \<and>
    (\<forall>n \<in> {''nodes'', ''faces''}.
       map_of (attrs (store a)) n = map_of (attrs (store' a')) n \<and>
       map_of (attrs (store b)) n = map_of (attrs (store' b')) n)"
  have "eq_loop ne [''nodes'', ''faces''] (attrs (store a)) (attrs (store b)) =
        eq_loop ne [''nodes'', ''faces''] (attrs (store' a')) (attrs (store' b'))"
    using h by (intro eq_loop_cong) simp
  then show "Grid_eq ne store a b = Grid_eq ne store' a' b'"
    using h by (simp add: Grid_eq_def)
qed

text \<open>
  The theorem in \<open>example_store\<close>, with integer elements: the structured grids 4
  and 5 have different \<open>node_lon\<close> and compare equal.
\<close>

theorem grid_equality_ignores_other_attributes_witness:
  "map_of (attrs (example_store 4)) ''node_lon'' \<noteq> map_of (attrs (example_store 5)) ''node_lon'' \<and>
   Grid_eq (\<noteq>) example_store 4 5 = Inr True \<and>
   Grid_eq (\<noteq>) example_store 0 3 = Grid_eq (\<noteq>) example_store 1 3"
proof -
  have equal: "Grid_eq (\<noteq>) example_store 4 5 = Inr True"
    using grid_equality_ignores_other_attributes [of example_store 4 5 "(\<noteq>)" 4 5 example_store]
    by (simp add: example_attrs)
  have indep: "Grid_eq (\<noteq>) example_store 0 3 = Grid_eq (\<noteq>) example_store 1 3"
    using grid_equality_ignores_other_attributes [of example_store 0 3 "(\<noteq>)" 1 3 example_store]
    by (simp add: example_attrs)
  show ?thesis
    using equal indep by (simp add: example_attrs)
qed




end
